theory Spec2Isabelle
  imports Main
begin

section \<open>JavaScript values, errors and promises\<close>

text \<open>
  The values that reach \<^verbatim>\<open>Orbit.js\<close> from its callers: the \<^verbatim>\<open>username\<close> of
  \<^verbatim>\<open>connect\<close>, the \<^verbatim>\<open>id\<close> option, and the entries of option and meta objects.
  Numbers that occur (sizes, timestamps) are integers.
\<close>

datatype jsval =
    JUndefined
  | JNull
  | JBool bool
  | JNum int
  | JStr string
  | JArr "jsval list"
  | JObj "(string \<times> jsval) list"

text \<open>What \<^verbatim>\<open>if (v)\<close> and \<^verbatim>\<open>!v\<close> test.\<close>

fun truthy :: "jsval \<Rightarrow> bool" where
  "truthy JUndefined = False"
| "truthy JNull = False"
| "truthy (JBool b) = b"
| "truthy (JNum n) = (n \<noteq> 0)"
| "truthy (JStr s) = (s \<noteq> [])"
| "truthy (JArr vs) = True"
| "truthy (JObj kvs) = True"

fun typeof :: "jsval \<Rightarrow> string" where
  "typeof JUndefined = ''undefined''"
| "typeof JNull = ''object''"
| "typeof (JBool b) = ''boolean''"
| "typeof (JNum n) = ''number''"
| "typeof (JStr s) = ''string''"
| "typeof (JArr vs) = ''object''"
| "typeof (JObj kvs) = ''object''"

text \<open>
  \<open>Error msg\<close> is \<^verbatim>\<open>new Error(msg)\<close> thrown by the code itself, \<open>TypeError\<close> is the
  engine's error for a property read on \<^verbatim>\<open>null\<close> or \<^verbatim>\<open>undefined\<close> (its message
  depends on the engine), \<open>ProviderFailure\<close> is whatever a collaborator (OrbitDB, a feed,
  IPFS) rejects with.
\<close>

datatype error = Error string | TypeError | ProviderFailure string

datatype 'a promise = Pending | Fulfilled 'a | Rejected error

text \<open>
  The objects \<^verbatim>\<open>_channels\<close> and \<^verbatim>\<open>_joiningQueue\<close> are created as \<^verbatim>\<open>{}\<close>, so a read
  \<^verbatim>\<open>obj[name]\<close> that finds no entry of the object's own finds what every object inherits
  from \<^verbatim>\<open>Object.prototype\<close>: a function for \<^verbatim>\<open>constructor\<close>, \<^verbatim>\<open>toString\<close> and the like,
  the prototype itself for \<^verbatim>\<open>__proto__\<close>. All of these are truthy and none has a
  \<^verbatim>\<open>feed\<close> property. \<open>Val v\<close> is a value of the kind that is stored, \<open>Proto n\<close> the
  inherited property of the name \<open>n\<close>; the result \<open>None\<close> of \<open>lookup\<close> is
  \<^verbatim>\<open>undefined\<close>.
\<close>

datatype 'a js = Val 'a | Proto string

definition proto_names :: "string list" where
  "proto_names =
     [''constructor'', ''__defineGetter__'', ''__defineSetter__'', ''hasOwnProperty'',
      ''__lookupGetter__'', ''__lookupSetter__'', ''isPrototypeOf'',
      ''propertyIsEnumerable'', ''toString'', ''valueOf'', ''__proto__'',
      ''toLocaleString'']"

definition inherited :: "string \<Rightarrow> bool" where
  "inherited n = (n \<in> set proto_names)"

definition lookup :: "(string \<rightharpoonup> 'a) \<Rightarrow> string \<Rightarrow> 'a js option" where
  "lookup obj n =
     (case obj n of
        Some v \<Rightarrow> Some (Val v)
      | None \<Rightarrow> if inherited n then Some (Proto n) else None)"

section \<open>Data model\<close>

record user_profile =
  name :: jsval
  location :: string
  image_p :: jsval

text \<open>
  Modelled from the spec: the \<^verbatim>\<open>Channel\<close> class (\<^verbatim>\<open>./Channel\<close>) is not part of the
  sources. \<^verbatim>\<open>Orbit.js\<close> only constructs it from the channel name and the feed, and reads
  its \<^verbatim>\<open>feed\<close> property; the spec gives it a name and a feed handle. A feed handle is a
  natural number; \<open>None\<close> is a \<^verbatim>\<open>feed\<close> property that is null or undefined.
\<close>

record channel =
  channelName :: string
  feed :: "nat option"

record post =
  content :: string
  meta :: "string \<rightharpoonup> jsval"

datatype event =
    Connected "user_profile option"
  | Disconnected
  | Joined string channel
  | Left string
  | Peers "string list"

text \<open>
  The fields of the \<^verbatim>\<open>Orbit\<close> object (\<open>events\<close> is the sequence of notifications emitted
  so far; \<open>options_id\<close> is \<^verbatim>\<open>this._options.id\<close>), followed by the part of the runtime the
  object talks to:
  \<^item> \<open>promises\<close>: the state of every promise \<^verbatim>\<open>join\<close> has created, by identity
    (its index); a promise is fulfilled with what \<^verbatim>\<open>this._channels[channelName]\<close> reads;
  \<^item> \<open>logPending\<close>: the calls of \<^verbatim>\<open>this._orbitdb.log\<close> that have not settled yet, as the
    closure of their \<^verbatim>\<open>then\<close> callback: the promise to resolve and the channel name;
  \<^item> \<open>logCalls\<close>: every call of \<^verbatim>\<open>this._orbitdb.log\<close> made so far, with its arguments;
  \<^item> \<open>creating\<close>: a call of \<^verbatim>\<open>OrbitDB.createInstance\<close> is awaited;
  \<^item> \<open>timers\<close>: the intervals of \<^verbatim>\<open>setInterval\<close> that are active, \<open>timerCount\<close> the
    number of intervals ever created (an interval's id is positive, hence truthy);
  \<^item> \<open>appended\<close>: every call of \<^verbatim>\<open>feed.add\<close> made so far, with the feed and the post.

  The maps \<open>channels\<close> and \<open>joiningQueue\<close> hold the entries of the objects' own; they are
  read through \<open>lookup\<close>. An entry is written only under a name for which the read of
  \<^verbatim>\<open>_channels\<close> found nothing, which is then not an inherited name.
\<close>

record orbit =
  events :: "event list"
  orbitdb :: "nat option"
  userProfile :: "user_profile option"
  channels :: "string \<rightharpoonup> channel"
  peers :: "string list"
  pollPeersTimer :: "nat option"
  options_id :: jsval
  joiningQueue :: "string \<rightharpoonup> nat"
  connecting :: bool
  promises :: "channel js promise list"
  logPending :: "nat \<rightharpoonup> string"
  logCalls :: "(string \<times> (string \<rightharpoonup> jsval)) list"
  creating :: bool
  timers :: "nat list"
  timerCount :: nat
  appended :: "(nat \<times> post) list"

text \<open>The constructor, for an \<^verbatim>\<open>options\<close> object whose \<^verbatim>\<open>id\<close> is the given value.\<close>

definition new_Orbit :: "jsval \<Rightarrow> orbit" where
  "new_Orbit oid =
     \<lparr>events = [], orbitdb = None, userProfile = None, channels = Map.empty, peers = [],
      pollPeersTimer = None, options_id = oid, joiningQueue = Map.empty, connecting = False,
      promises = [], logPending = Map.empty, logCalls = [], creating = False, timers = [],
      timerCount = 0, appended = []\<rparr>"

definition emit :: "event \<Rightarrow> orbit \<Rightarrow> orbit" where
  "emit e s = s\<lparr>events := events s @ [e]\<rparr>"

section \<open>Connection lifecycle\<close>

text \<open>
  \<^verbatim>\<open>_startPollingForPeers\<close>: an interval is created only when \<^verbatim>\<open>_pollPeersTimer\<close> is
  falsy.
\<close>

definition startPollingForPeers :: "orbit \<Rightarrow> orbit" where
  "startPollingForPeers s =
     (case pollPeersTimer s of
        None \<Rightarrow>
          let t = Suc (timerCount s)
          in s\<lparr>pollPeersTimer := Some t, timers := timers s @ [t], timerCount := t\<rparr>
      | Some t \<Rightarrow> s)"

text \<open>
  \<^verbatim>\<open>connect\<close> up to its \<^verbatim>\<open>await OrbitDB.createInstance(...)\<close>. \<open>Inl e\<close>: the call is
  rejected with \<open>e\<close>; \<open>Inr ()\<close>: the call is suspended, waiting for the provider.
\<close>

definition connect :: "jsval \<Rightarrow> orbit \<Rightarrow> (error + unit) \<times> orbit" where
  "connect username s =
     (if orbitdb s \<noteq> None then (Inl (Error ''Already connected''), s)
      else if connecting s then (Inl (Error ''Already connecting''), s)
      else
        let s1 = s\<lparr>connecting := True\<rparr> in
        if truthy username \<and> typeof username \<noteq> ''string''
        then (Inl (Error (CHR 0x27 # ''username'' @ CHR 0x27 # '' must be a string'')), s1)
        else
          let s2 = (if truthy username then s1\<lparr>options_id := username\<rparr> else s1);
              s3 = s2\<lparr>userProfile :=
                     Some \<lparr>name = options_id s2, location = ''Earth'', image_p = JNull\<rparr>\<rparr>
          in (Inr (), s3\<lparr>creating := True\<rparr>))"

text \<open>
  The rest of \<^verbatim>\<open>connect\<close>, run when \<^verbatim>\<open>createInstance\<close> settles: with \<open>Inl e\<close> the
  call is rejected and nothing else happens, with \<open>Inr db\<close> the handle is stored, polling
  is started and \<^verbatim>\<open>connected\<close> is emitted.
\<close>

definition connect_resumed :: "error + nat \<Rightarrow> orbit \<Rightarrow> (error + unit) \<times> orbit" where
  "connect_resumed r s =
     (case r of
        Inl e \<Rightarrow> (Inl e, s\<lparr>creating := False\<rparr>)
      | Inr db \<Rightarrow>
          let s1 = startPollingForPeers (s\<lparr>creating := False, orbitdb := Some db\<rparr>)
          in (Inr (), emit (Connected (userProfile s1)) s1))"

text \<open>
  \<^verbatim>\<open>disconnect\<close>, with the outcome \<open>r\<close> of \<^verbatim>\<open>this._orbitdb.disconnect()\<close>; the
  continuation of the \<^verbatim>\<open>await\<close> runs with no other operation in between.
  \<^verbatim>\<open>clearInterval\<close> removes the interval; \<^verbatim>\<open>_pollPeersTimer\<close> is left as it is.
\<close>

definition disconnect :: "error + unit \<Rightarrow> orbit \<Rightarrow> (error + unit) \<times> orbit" where
  "disconnect r s =
     (case orbitdb s of
        None \<Rightarrow> (Inr (), s)
      | Some db \<Rightarrow>
          (case r of
             Inl e \<Rightarrow> (Inl e, s)
           | Inr u \<Rightarrow>
               let s1 = s\<lparr>connecting := False, orbitdb := None, userProfile := None,
                           channels := Map.empty\<rparr>;
                   s2 = (case pollPeersTimer s1 of
                           Some t \<Rightarrow> s1\<lparr>timers := removeAll t (timers s1)\<rparr>
                         | None \<Rightarrow> s1)
               in (Inr (), emit Disconnected s2)))"

section \<open>Peer polling\<close>

text \<open>
  \<^verbatim>\<open>_updateSwarmPeers\<close>, given what \<^verbatim>\<open>this._ipfs.swarm.peers()\<close> settles with: a failure,
  or the peers, each with its address as a string when it has one. \<open>None\<close> is
  \<^verbatim>\<open>undefined\<close> (the error was logged).
\<close>

definition updateSwarmPeers :: "error + string option list \<Rightarrow> string list option" where
  "updateSwarmPeers r =
     (case r of
        Inl e \<Rightarrow> None
      | Inr ps \<Rightarrow> Some (map the (filter (\<lambda>a. a \<noteq> None) ps)))"

definition update :: "error + string option list \<Rightarrow> orbit \<Rightarrow> orbit" where
  "update r s =
     (let ps = (case updateSwarmPeers r of None \<Rightarrow> [] | Some as \<Rightarrow> as)
      in emit (Peers ps) (s\<lparr>peers := ps\<rparr>))"

text \<open>The interval \<open>t\<close> fires: its callback is \<^verbatim>\<open>update\<close>, when the interval is active.\<close>

definition interval_fired :: "nat \<Rightarrow> error + string option list \<Rightarrow> orbit \<Rightarrow> orbit" where
  "interval_fired t r s = (if t \<in> set (timers s) then update r s else s)"

section \<open>Channel registry\<close>

text \<open>A promise that is created settled (\<^verbatim>\<open>Promise.reject\<close>, \<^verbatim>\<open>Promise.resolve\<close>).\<close>

definition new_promise :: "channel js promise \<Rightarrow> orbit \<Rightarrow> nat js \<times> orbit" where
  "new_promise st s = (Val (length (promises s)), s\<lparr>promises := promises s @ [st]\<rparr>)"

text \<open>\<^verbatim>\<open>resolve(v)\<close> of the promise \<open>p\<close>: a promise that is settled stays as it is.\<close>

definition resolve :: "nat \<Rightarrow> channel js \<Rightarrow> orbit \<Rightarrow> orbit" where
  "resolve p v s =
     (if p < length (promises s) \<and> promises s ! p = Pending
      then s\<lparr>promises := (promises s)[p := Fulfilled v]\<rparr>
      else s)"

text \<open>
  The channel options of \<^verbatim>\<open>join\<close>: \<^verbatim>\<open>Object.assign\<close> of the caller's options (when
  given) over the default access controller.
\<close>

definition channelOptions :: "(string \<rightharpoonup> jsval) option \<Rightarrow> (string \<rightharpoonup> jsval)" where
  "channelOptions options =
     [''accessController'' \<mapsto> JObj [(''write'', JArr [JStr ''*''])]]
       ++ (case options of None \<Rightarrow> Map.empty | Some m \<Rightarrow> m)"

text \<open>
  \<^verbatim>\<open>join\<close> returns what it reads from \<^verbatim>\<open>_joiningQueue\<close> or a promise it creates: \<open>Val p\<close>
  is the promise of identity \<open>p\<close>. It runs the executor of a new promise at once: the
  executor calls \<^verbatim>\<open>this._orbitdb.log\<close>, which throws a \<open>TypeError\<close> when \<^verbatim>\<open>_orbitdb\<close> is
  null, and an executor that throws rejects its promise.
\<close>

definition join ::
  "string \<Rightarrow> (string \<rightharpoonup> jsval) option \<Rightarrow> orbit \<Rightarrow> nat js \<times> orbit" where
  "join c options s =
     (if c = [] then new_promise (Rejected (Error ''Channel not specified'')) s
      else
        case lookup (channels s) c of
          Some v \<Rightarrow> new_promise (Fulfilled v) s
        | None \<Rightarrow>
            (case lookup (joiningQueue s) c of
               Some q \<Rightarrow> (q, s)
             | None \<Rightarrow>
                 let p = length (promises s) in
                 (case orbitdb s of
                    None \<Rightarrow>
                      (Val p, s\<lparr>promises := promises s @ [Rejected TypeError],
                                  joiningQueue := (joiningQueue s)(c \<mapsto> p)\<rparr>)
                  | Some db \<Rightarrow>
                      (Val p, s\<lparr>promises := promises s @ [Pending],
                                  logCalls := logCalls s @ [(c, channelOptions options)],
                                  logPending := (logPending s)(p \<mapsto> c),
                                  joiningQueue := (joiningQueue s)(c \<mapsto> p)\<rparr>))))"

text \<open>
  The \<^verbatim>\<open>then\<close> callback of \<^verbatim>\<open>this._orbitdb.log(...)\<close>, for the call that belongs to the
  promise \<open>p\<close>, when the provider fulfils it with the feed \<open>f\<close>. The callback stores the
  new channel under the name and reads it back from there for the notification and for
  \<^verbatim>\<open>resolve\<close>.
\<close>

definition log_fulfilled :: "nat \<Rightarrow> nat \<Rightarrow> orbit \<Rightarrow> orbit" where
  "log_fulfilled p f s =
     (case logPending s p of
        None \<Rightarrow> s
      | Some c \<Rightarrow>
          let ch = \<lparr>channelName = c, feed = Some f\<rparr>;
              s1 = s\<lparr>channels := (channels s)(c \<mapsto> ch), logPending := (logPending s)(p := None)\<rparr>;
              s2 = emit (Joined c ch) s1;
              s3 = s2\<lparr>joiningQueue := (joiningQueue s2)(c := None)\<rparr>
          in resolve p (Val ch) s3)"

text \<open>
  The provider rejects the call instead: \<^verbatim>\<open>then\<close> was given no rejection handler and the
  executor took no \<^verbatim>\<open>reject\<close>, so nothing of the object changes.
\<close>

definition log_rejected :: "nat \<Rightarrow> error \<Rightarrow> orbit \<Rightarrow> orbit" where
  "log_rejected p e s = s\<lparr>logPending := (logPending s)(p := None)\<rparr>"

text \<open>
  \<^verbatim>\<open>leave\<close>, with the outcome \<open>r\<close> of \<^verbatim>\<open>channel.feed.close()\<close>; the continuation of the
  \<^verbatim>\<open>await\<close> runs with no other operation in between. For an inherited name
  \<^verbatim>\<open>channel\<close> is truthy and \<^verbatim>\<open>channel.feed\<close> is undefined, so the call of \<^verbatim>\<open>close\<close>
  throws a \<open>TypeError\<close>.
\<close>

definition leave :: "string \<Rightarrow> error + unit \<Rightarrow> orbit \<Rightarrow> (error + unit) \<times> orbit" where
  "leave c r s =
     (case lookup (channels s) c of
        None \<Rightarrow> (Inr (), emit (Left c) s)
      | Some (Proto n) \<Rightarrow> (Inl TypeError, s)
      | Some (Val ch) \<Rightarrow>
          (case feed ch of
             None \<Rightarrow> (Inl TypeError, s)
           | Some f \<Rightarrow>
               (case r of
                  Inl e \<Rightarrow> (Inl e, s)
                | Inr u \<Rightarrow> (Inr (), emit (Left c) (s\<lparr>channels := (channels s)(c := None)\<rparr>)))))"

section \<open>Message pipeline\<close>

text \<open>
  \<^verbatim>\<open>_getChannelFeed\<close>: \<^verbatim>\<open>this.channels[channelName].feed\<close> is read before anything is
  tested, and the read throws a \<open>TypeError\<close> when nothing is found under the name. What
  is found under an inherited name has no \<^verbatim>\<open>feed\<close>.
\<close>

definition getChannelFeed :: "string \<Rightarrow> orbit \<Rightarrow> error + nat" where
  "getChannelFeed c s =
     (if c = [] then Inl (Error ''Channel not specified'')
      else
        case lookup (channels s) c of
          None \<Rightarrow> Inl TypeError
        | Some (Proto n) \<Rightarrow> Inl (Error (''Have not joined #'' @ c))
        | Some (Val ch) \<Rightarrow>
            (case feed ch of
               None \<Rightarrow> Inl (Error (''Have not joined #'' @ c))
             | Some f \<Rightarrow> Inr f))"

text \<open>
  \<^verbatim>\<open>_postMessage\<close>: \<open>Inr ()\<close> stands for the promise of \<^verbatim>\<open>feed.add(data)\<close>, a call that
  \<open>appended\<close> records.
\<close>

definition postMessage :: "string \<Rightarrow> post \<Rightarrow> orbit \<Rightarrow> (error + unit) \<times> orbit" where
  "postMessage c data s =
     (case getChannelFeed c s of
        Inl e \<Rightarrow> (Inl e, s)
      | Inr f \<Rightarrow> (Inr (), s\<lparr>appended := appended s @ [(f, data)]\<rparr>))"

definition profile_val :: "user_profile \<Rightarrow> jsval" where
  "profile_val u =
     JObj [(''name'', name u), (''location'', JStr (location u)), (''image'', image_p u)]"

text \<open>\<^verbatim>\<open>send\<close>; \<open>ts\<close> is what \<^verbatim>\<open>new Date().getTime()\<close> returns. A string is the list
  of its code units, which is what \<^verbatim>\<open>substring\<close> counts.\<close>

definition send :: "string \<Rightarrow> string \<Rightarrow> int \<Rightarrow> orbit \<Rightarrow> (error + unit) \<times> orbit" where
  "send c message ts s =
     (if c = [] then (Inl (Error ''Channel must be specified''), s)
      else if message = [] then
        (Inl (Error (''Can'' @ CHR 0x27 # ''t send an empty message'')), s)
      else
        case userProfile s of
          None \<Rightarrow>
            (Inl (Error (''Something went wrong: '' @ CHR 0x27 # ''userProfile'' @
                         CHR 0x27 # '' is undefined'')), s)
        | Some u \<Rightarrow>
            postMessage c
              \<lparr>content = take 2048 message,
               meta = [''from'' \<mapsto> profile_val u, ''type'' \<mapsto> JStr ''text'', ''ts'' \<mapsto> JNum ts]\<rparr> s)"

text \<open>
  The \<^verbatim>\<open>source\<close> object of \<^verbatim>\<open>addFile\<close>. A buffer is an object, truthy when present;
  a file name or directory is falsy when it is missing and when it is the empty string.
\<close>

record source =
  filename :: "string option"
  directory :: "string option"
  buffer :: "nat list option"
  source_meta :: "(string \<rightharpoonup> jsval) option"

definition present :: "string option \<Rightarrow> bool" where
  "present x = (case x of None \<Rightarrow> False | Some v \<Rightarrow> v \<noteq> [])"

text \<open>The string of a field that is present (the empty string for a missing one).\<close>

definition str :: "string option \<Rightarrow> string" where
  "str x = (case x of None \<Rightarrow> [] | Some v \<Rightarrow> v)"

text \<open>\<^verbatim>\<open>s.split(sep)\<close> for a separator of one character, and \<^verbatim>\<open>s.split('/').pop()\<close>.\<close>

fun split :: "char \<Rightarrow> string \<Rightarrow> string list" where
  "split sep [] = [[]]"
| "split sep (x # xs) =
     (if x = sep then [] # split sep xs
      else case split sep xs of
             [] \<Rightarrow> [[x]]
           | w # ws \<Rightarrow> (x # w) # ws)"

definition pop :: "string list \<Rightarrow> string" where
  "pop ws = (case ws of [] \<Rightarrow> [] | w # ws' \<Rightarrow> last ws)"

definition trailing :: "string \<Rightarrow> string" where
  "trailing p = pop (split CHR ''/'' p)"

text \<open>
  \<^verbatim>\<open>this._ipfs.add\<close>: its argument is a buffer or \<^verbatim>\<open>{ path: filePath }\<close>, it fails or
  gives one result with a path and a content identifier. An \<open>upload\<close> is the pair of
  \<^verbatim>\<open>hash\<close> and \<^verbatim>\<open>isDirectory\<close>.
\<close>

datatype add_arg = AddBuffer "nat list" | AddPath string

record add_result =
  path :: string
  cid :: string

type_synonym ipfs_add = "add_arg \<Rightarrow> error + add_result"

definition addToIpfsJs :: "ipfs_add \<Rightarrow> nat list \<Rightarrow> error + string \<times> bool" where
  "addToIpfsJs ipfs data =
     (case ipfs (AddBuffer data) of
        Inl e \<Rightarrow> Inl e
      | Inr result \<Rightarrow> Inr (cid result, False))"

definition addToIpfsGo :: "ipfs_add \<Rightarrow> string \<Rightarrow> string \<Rightarrow> error + string \<times> bool" where
  "addToIpfsGo ipfs fname filePath =
     (case ipfs (AddPath filePath) of
        Inl e \<Rightarrow> Inl e
      | Inr result \<Rightarrow> Inr (cid result, trailing (path result) \<noteq> fname))"

text \<open>
  The \<^verbatim>\<open>meta\<close> of the post of \<^verbatim>\<open>addFile\<close>: \<^verbatim>\<open>Object.assign\<close> of three objects, a later
  one overwriting the keys of an earlier one.
\<close>

definition file_meta ::
  "user_profile option \<Rightarrow> bool \<Rightarrow> int \<Rightarrow> jsval \<Rightarrow> string \<Rightarrow> (string \<rightharpoonup> jsval) option
     \<Rightarrow> (string \<rightharpoonup> jsval)" where
  "file_meta prof isDirectory ts size_v nm m =
     [''from'' \<mapsto> (case prof of None \<Rightarrow> JNull | Some u \<Rightarrow> profile_val u),
      ''type'' \<mapsto> JStr (if isDirectory then ''directory'' else ''file''),
      ''ts'' \<mapsto> JNum ts]
       ++ [''size'' \<mapsto> size_v, ''name'' \<mapsto> JStr nm]
       ++ (case m of None \<Rightarrow> Map.empty | Some m' \<Rightarrow> m')"

text \<open>
  The constants \<^verbatim>\<open>isBuffer\<close>, \<^verbatim>\<open>name\<close> and \<^verbatim>\<open>size\<close> of \<^verbatim>\<open>addFile\<close>, and the
  call \<^verbatim>\<open>addToIpfs()\<close> it binds: from the buffer for a buffer with a file name, else
  from the directory when there is one, else from the file name.
\<close>

definition isBuffer :: "source \<Rightarrow> bool" where
  "isBuffer so = (buffer so \<noteq> None \<and> present (filename so))"

definition name_of :: "source \<Rightarrow> string" where
  "name_of so =
     (if present (directory so) then trailing (str (directory so))
      else trailing (str (filename so)))"

definition size_of :: "source \<Rightarrow> jsval" where
  "size_of so =
     (case source_meta so of
        None \<Rightarrow> JNum 0
      | Some m \<Rightarrow>
          (case m ''size'' of
             None \<Rightarrow> JNum 0
           | Some v \<Rightarrow> if truthy v then v else JNum 0))"

definition addToIpfs :: "ipfs_add \<Rightarrow> source \<Rightarrow> error + string \<times> bool" where
  "addToIpfs ipfs so =
     (if isBuffer so
      then addToIpfsJs ipfs (case buffer so of None \<Rightarrow> [] | Some b \<Rightarrow> b)
      else if present (directory so)
        then addToIpfsGo ipfs (name_of so) (str (directory so))
        else addToIpfsGo ipfs (name_of so) (str (filename so)))"

text \<open>
  \<^verbatim>\<open>addFile\<close>, with the provider's \<^verbatim>\<open>add\<close> as a function; the continuation of
  \<^verbatim>\<open>await addToIpfs()\<close> runs with no other operation in between.
\<close>

definition addFile ::
  "string \<Rightarrow> source option \<Rightarrow> ipfs_add \<Rightarrow> int \<Rightarrow> orbit \<Rightarrow> (error + unit) \<times> orbit" where
  "addFile c src ipfs ts s =
     (case src of
        None \<Rightarrow> (Inl (Error ''Filename or directory not specified''), s)
      | Some so \<Rightarrow>
          if \<not> present (filename so) \<and> \<not> present (directory so)
          then (Inl (Error ''Filename or directory not specified''), s)
          else
            (case addToIpfs ipfs so of
               Inl e \<Rightarrow> (Inl e, s)
             | Inr (hash, isDirectory) \<Rightarrow>
                 postMessage c
                   \<lparr>content = hash,
                    meta = file_meta (userProfile s) isDirectory ts (size_of so) (name_of so)
                             (source_meta so)\<rparr>
                   s))"

section \<open>Runs\<close>

text \<open>
  What can happen to an \<^verbatim>\<open>Orbit\<close> object: a call of one of its methods, or a
  collaborator settling something the object waits for. A settlement has an effect only
  when the object waits for it.
\<close>

datatype action =
    Connect jsval
  | CreateSettled "error + nat"
  | Disconnect "error + unit"
  | Join string "(string \<rightharpoonup> jsval) option"
  | LogFulfilled nat nat
  | LogRejected nat error
  | Leave string "error + unit"
  | Send string string int
  | AddFile string "source option" ipfs_add int
  | IntervalFired nat "error + string option list"

fun step :: "action \<Rightarrow> orbit \<Rightarrow> orbit" where
  "step (Connect username) s = snd (connect username s)"
| "step (CreateSettled r) s = (if creating s then snd (connect_resumed r s) else s)"
| "step (Disconnect r) s = snd (disconnect r s)"
| "step (Join c options) s = snd (join c options s)"
| "step (LogFulfilled p f) s = log_fulfilled p f s"
| "step (LogRejected p e) s = log_rejected p e s"
| "step (Leave c r) s = snd (leave c r s)"
| "step (Send c message ts) s = snd (send c message ts s)"
| "step (AddFile c src ipfs ts) s = snd (addFile c src ipfs ts s)"
| "step (IntervalFired t r) s = interval_fired t r s"

fun run :: "action list \<Rightarrow> orbit \<Rightarrow> orbit" where
  "run [] s = s"
| "run (a # as) s = run as (step a s)"


section \<open>Sessions used as examples\<close>

text \<open>A session connected as \<open>alice\<close>, and the same session after it has joined
  \<open>general\<close> (the provider gave the feed 7).\<close>

definition alice :: orbit where
  "alice = run [Connect (JStr ''alice''), CreateSettled (Inr 1)] (new_Orbit JUndefined)"

definition alice_general :: orbit where
  "alice_general = run [Join ''general'' None, LogFulfilled 0 7] alice"

text \<open>The argument \<^verbatim>\<open>addFile\<close> passes to \<^verbatim>\<open>this._ipfs.add\<close> for a source, and the
  \<^verbatim>\<open>type\<close> entry of the caller's meta, when there is one.\<close>

definition add_arg_of :: "source \<Rightarrow> add_arg" where
  "add_arg_of so =
     (if isBuffer so then AddBuffer (case buffer so of None \<Rightarrow> [] | Some b \<Rightarrow> b)
      else if present (directory so) then AddPath (str (directory so))
      else AddPath (str (filename so)))"

definition caller_type :: "source \<Rightarrow> jsval option" where
  "caller_type so = (case source_meta so of None \<Rightarrow> None | Some m \<Rightarrow> m ''type'')"

text \<open>A provider that adds everything, and answers a path with its last segment.\<close>

definition ipfs_stub :: ipfs_add where
  "ipfs_stub a =
     (case a of
        AddBuffer b \<Rightarrow> Inr \<lparr>path = ''QmBuffer'', cid = ''QmBuffer''\<rparr>
      | AddPath p \<Rightarrow> Inr \<lparr>path = trailing p, cid = ''QmPath''\<rparr>)"

text \<open>A session that connects, disconnects and connects again; the provider gives the
  handles \<open>db1\<close> and \<open>db2\<close>.\<close>

definition reconnected :: "jsval \<Rightarrow> nat \<Rightarrow> nat \<Rightarrow> orbit" where
  "reconnected oid db1 db2 =
     run [Connect JUndefined, CreateSettled (Inr db1), Disconnect (Inr ()),
          Connect JUndefined, CreateSettled (Inr db2)] (new_Orbit oid)"

text \<open>A source with a buffer whose meta carries a \<^verbatim>\<open>type\<close> of its own, and a source
  that is a file path.\<close>

definition typed_buffer :: source where
  "typed_buffer =
     \<lparr>filename = Some ''a.txt'', directory = None, buffer = Some [104, 105],
      source_meta = Some [''type'' \<mapsto> JStr ''directory'']\<rparr>"

definition file_path :: source where
  "file_path =
     \<lparr>filename = Some ''docs/a.txt'', directory = None, buffer = None, source_meta = None\<rparr>"


definition left_waiting :: orbit where
  "left_waiting =
     run [Connect (JStr ''alice''), CreateSettled (Inr 1), Join ''general'' None,
          Disconnect (Inr ())]
       (new_Orbit JUndefined)"

section \<open>Invariants of runs\<close>

text \<open>Every call of \<^verbatim>\<open>this._orbitdb.log\<close> that has not settled is the one the pending
  join of its channel name waits for.\<close>

definition queue_consistent :: "orbit \<Rightarrow> bool" where
  "queue_consistent s =
     (\<forall>q c. logPending s q = Some c \<longrightarrow> joiningQueue s c = Some q)"

text \<open>Nothing is found under \<open>c\<close> in the registry, the pending join of \<open>c\<close> is the promise
  \<open>p\<close>, which is rejected, and no call of \<^verbatim>\<open>this._orbitdb.log\<close> for \<open>c\<close> is on its way.\<close>

definition poisoned :: "string \<Rightarrow> nat \<Rightarrow> orbit \<Rightarrow> bool" where
  "poisoned c p s =
     (lookup (channels s) c = None \<and> joiningQueue s c = Some p \<and> p < length (promises s)
      \<and> promises s ! p = Rejected TypeError \<and> (\<forall>q. logPending s q \<noteq> Some c))"

text \<open>Nothing is found under \<open>c\<close> in the registry, the pending join of \<open>c\<close> is the promise
  \<open>p\<close>, which is pending, and no call of \<^verbatim>\<open>this._orbitdb.log\<close> is left that could settle
  it.\<close>

definition stuck :: "string \<Rightarrow> nat \<Rightarrow> orbit \<Rightarrow> bool" where
  "stuck c p s =
     (lookup (channels s) c = None \<and> joiningQueue s c = Some p \<and> p < length (promises s)
      \<and> promises s ! p = Pending \<and> logPending s p = None
      \<and> (\<forall>q. logPending s q \<noteq> Some c))"

fun is_peers :: "event \<Rightarrow> bool" where
  "is_peers (Peers ps) = True"
| "is_peers e = False"

text \<open>\<^verbatim>\<open>_pollPeersTimer\<close> holds an interval and no interval is active.\<close>

definition polling_dead :: "orbit \<Rightarrow> bool" where
  "polling_dead s = (pollPeersTimer s \<noteq> None \<and> timers s = [])"

section \<open>Facts about the operations\<close>

lemmas ops =
  new_Orbit_def connect_def connect_resumed_def startPollingForPeers_def emit_def
  disconnect_def join_def log_fulfilled_def log_rejected_def resolve_def new_promise_def
  leave_def send_def postMessage_def getChannelFeed_def interval_fired_def update_def

lemma lookup_None: "lookup obj n = None \<longleftrightarrow> obj n = None \<and> \<not> inherited n"
  by (simp add: lookup_def split: option.splits)

lemma lookup_own: "obj n = Some v \<Longrightarrow> lookup obj n = Some (Val v)"
  by (simp add: lookup_def)

lemma lookup_inherited: "obj n = None \<Longrightarrow> inherited n \<Longrightarrow> lookup obj n = Some (Proto n)"
  by (simp add: lookup_def)

lemma general_not_inherited: "\<not> inherited ''general''"
  by (simp add: inherited_def proto_names_def)

lemma constructor_inherited: "inherited ''constructor''"
  by (simp add: inherited_def proto_names_def)

lemma alice_state:
  "alice =
     \<lparr>events = [Connected (Some \<lparr>name = JStr ''alice'', location = ''Earth'', image_p = JNull\<rparr>)],
      orbitdb = Some 1,
      userProfile = Some \<lparr>name = JStr ''alice'', location = ''Earth'', image_p = JNull\<rparr>,
      channels = Map.empty, peers = [], pollPeersTimer = Some 1,
      options_id = JStr ''alice'', joiningQueue = Map.empty, connecting = True,
      promises = [], logPending = Map.empty, logCalls = [], creating = False, timers = [1],
      timerCount = 1, appended = []\<rparr>"
  by (simp add: alice_def ops Let_def)

lemma alice_general_state:
  "alice_general =
     alice\<lparr>events := events alice @ [Joined ''general'' \<lparr>channelName = ''general'', feed = Some 7\<rparr>],
           channels := [''general'' \<mapsto> \<lparr>channelName = ''general'', feed = Some 7\<rparr>],
           promises := [Fulfilled (Val \<lparr>channelName = ''general'', feed = Some 7\<rparr>)],
           logCalls := [(''general'', channelOptions None)]\<rparr>"
  by (simp add: alice_general_def alice_state ops Let_def lookup_def general_not_inherited)


lemma left_waiting_state:
  "left_waiting =
     alice\<lparr>events := events alice @ [Disconnected], orbitdb := None, userProfile := None,
           connecting := False, timers := [],
           joiningQueue := [''general'' \<mapsto> 0], promises := [Pending],
           logPending := [0 \<mapsto> ''general''],
           logCalls := [(''general'', channelOptions None)]\<rparr>"
  by (simp add: left_waiting_def alice_state ops Let_def lookup_def general_not_inherited)

lemma join_again:
  "c \<noteq> [] \<Longrightarrow> lookup (channels s) c = None \<Longrightarrow> joiningQueue s c = Some p \<Longrightarrow>
   join c options s = (Val p, s)"
  by (simp add: join_def lookup_own)


lemma join_first:
  "c \<noteq> [] \<Longrightarrow> orbitdb s = Some db \<Longrightarrow> lookup (channels s) c = None \<Longrightarrow>
   joiningQueue s c = None \<Longrightarrow>
   join c options s =
     (Val (length (promises s)),
      s\<lparr>promises := promises s @ [Pending],
        logCalls := logCalls s @ [(c, channelOptions options)],
        logPending := (logPending s)(length (promises s) \<mapsto> c),
        joiningQueue := (joiningQueue s)(c \<mapsto> length (promises s))\<rparr>)"
  by (simp add: join_def Let_def lookup_def split: option.splits if_splits)




subsection \<open>Runs keep the pending joins consistent\<close>

lemma log_fulfilled_queue_consistent:
  assumes "queue_consistent s"
  shows "queue_consistent (log_fulfilled p f s)"
proof (cases "logPending s p")
  case None
  then show ?thesis using assms by (simp add: log_fulfilled_def)
next
  case (Some c)
  have only: "logPending s q \<noteq> Some c" if "q \<noteq> p" for q
  proof
    assume "logPending s q = Some c"
    with assms Some have "joiningQueue s c = Some q" and "joiningQueue s c = Some p"
      unfolding queue_consistent_def by blast+
    with that show False by simp
  qed
  show ?thesis
    using assms Some only
    by (auto simp: queue_consistent_def log_fulfilled_def emit_def resolve_def Let_def)
qed

lemma join_queue_consistent:
  assumes "queue_consistent s"
  shows "queue_consistent (snd (join c options s))"
  using assms
  by (auto simp: queue_consistent_def join_def new_promise_def lookup_def Let_def
        split: option.splits if_splits)

lemma step_queue_consistent:
  "queue_consistent s \<Longrightarrow> queue_consistent (step a s)"
proof (cases a)
  case (LogFulfilled p f)
  assume "queue_consistent s"
  then show ?thesis
    by (simp add: LogFulfilled log_fulfilled_queue_consistent)
next
  case (Join c options)
  assume "queue_consistent s"
  then show ?thesis
    by (simp add: Join join_queue_consistent)
qed (auto simp: queue_consistent_def ops addFile_def Let_def
       split: option.splits sum.splits if_splits prod.splits js.splits)

lemma run_queue_consistent:
  "queue_consistent s \<Longrightarrow> queue_consistent (run acts s)"
  by (induction acts arbitrary: s) (simp_all add: step_queue_consistent)

lemma new_queue_consistent: "queue_consistent (new_Orbit oid)"
  by (simp add: queue_consistent_def new_Orbit_def)

lemma no_log_pending:
  assumes "joiningQueue (run before (new_Orbit oid)) c = None"
  shows "logPending (run before (new_Orbit oid)) q \<noteq> Some c"
proof -
  have "queue_consistent (run before (new_Orbit oid))"
    by (simp add: run_queue_consistent new_queue_consistent)
  with assms show ?thesis
    by (auto simp: queue_consistent_def)
qed

subsection \<open>A rejected pending join stays\<close>

lemma log_fulfilled_poisoned:
  assumes "poisoned c p s"
  shows "poisoned c p (log_fulfilled q f s)"
proof (cases "logPending s q")
  case None
  then show ?thesis using assms by (simp add: log_fulfilled_def)
next
  case (Some c')
  with assms have ne: "c' \<noteq> c"
    by (auto simp: poisoned_def)
  have "q \<noteq> p" if "q < length (promises s)" and "promises s ! q = Pending"
    using that assms by (auto simp: poisoned_def)
  then show ?thesis
    using assms Some ne
    by (auto simp: poisoned_def lookup_None log_fulfilled_def emit_def resolve_def Let_def)
qed

lemma join_poisoned:
  "c \<noteq> [] \<Longrightarrow> poisoned c p s \<Longrightarrow> join c options s = (Val p, s)"
  by (simp add: poisoned_def join_again)

lemma join_other_poisoned:
  assumes "poisoned c p s"
  shows "poisoned c p (snd (join c' options s))"
proof (cases "c' = c")
  case True
  with assms show ?thesis
    by (auto simp: poisoned_def join_def new_promise_def lookup_own nth_append)
next
  case False
  with assms show ?thesis
    by (auto simp: poisoned_def join_def new_promise_def Let_def nth_append
          split: option.splits)
qed

lemma step_poisoned:
  "poisoned c p s \<Longrightarrow> poisoned c p (step a s)"
proof (cases a)
  case (LogFulfilled q f)
  assume "poisoned c p s"
  then show ?thesis
    by (simp add: LogFulfilled log_fulfilled_poisoned)
next
  case (Join c' options)
  assume "poisoned c p s"
  then show ?thesis
    by (simp add: Join join_other_poisoned)
qed (auto simp: poisoned_def lookup_None ops addFile_def Let_def nth_append
       split: option.splits sum.splits if_splits prod.splits js.splits)

lemma run_poisoned:
  "poisoned c p s \<Longrightarrow> poisoned c p (run acts s)"
  by (induction acts arbitrary: s) (simp_all add: step_poisoned)

lemma join_disconnected:
  "c \<noteq> [] \<Longrightarrow> orbitdb s = None \<Longrightarrow> lookup (channels s) c = None \<Longrightarrow>
   joiningQueue s c = None \<Longrightarrow>
   join c options s =
     (Val (length (promises s)),
      s\<lparr>promises := promises s @ [Rejected TypeError],
        joiningQueue := (joiningQueue s)(c \<mapsto> length (promises s))\<rparr>)"
  by (simp add: join_def Let_def lookup_def split: option.splits if_splits)

subsection \<open>A pending join whose log call was rejected stays pending\<close>

lemma log_fulfilled_stuck:
  assumes "stuck c p s"
  shows "stuck c p (log_fulfilled q f s)"
proof (cases "logPending s q")
  case None
  then show ?thesis using assms by (simp add: log_fulfilled_def)
next
  case (Some c')
  with assms have ne: "c' \<noteq> c" and "q \<noteq> p"
    by (auto simp: stuck_def)
  then show ?thesis
    using assms Some
    by (auto simp: stuck_def lookup_None log_fulfilled_def emit_def resolve_def Let_def)
qed

lemma join_stuck:
  "c \<noteq> [] \<Longrightarrow> stuck c p s \<Longrightarrow> join c options s = (Val p, s)"
  by (simp add: stuck_def join_again)

lemma join_other_stuck:
  assumes "stuck c p s"
  shows "stuck c p (snd (join c' options s))"
proof (cases "c' = c")
  case True
  with assms show ?thesis
    by (auto simp: stuck_def join_def new_promise_def lookup_own nth_append)
next
  case False
  with assms show ?thesis
    by (auto simp: stuck_def join_def new_promise_def Let_def nth_append
          split: option.splits)
qed

lemma step_stuck:
  "stuck c p s \<Longrightarrow> stuck c p (step a s)"
proof (cases a)
  case (LogFulfilled q f)
  assume "stuck c p s"
  then show ?thesis
    by (simp add: LogFulfilled log_fulfilled_stuck)
next
  case (Join c' options)
  assume "stuck c p s"
  then show ?thesis
    by (simp add: Join join_other_stuck)
qed (auto simp: stuck_def lookup_None ops addFile_def Let_def nth_append
       split: option.splits sum.splits if_splits prod.splits js.splits)

lemma run_stuck:
  "stuck c p s \<Longrightarrow> stuck c p (run acts s)"
  by (induction acts arbitrary: s) (simp_all add: step_stuck)

subsection \<open>Polling that is dead stays dead\<close>

lemma step_polling_dead:
  "polling_dead s \<Longrightarrow>
   polling_dead (step a s) \<and> filter is_peers (events (step a s)) = filter is_peers (events s)"
  by (cases a)
     (auto simp: polling_dead_def ops addFile_def Let_def
           split: option.splits sum.splits if_splits prod.splits js.splits)

lemma run_polling_dead:
  "polling_dead s \<Longrightarrow>
   polling_dead (run acts s) \<and> filter is_peers (events (run acts s)) = filter is_peers (events s)"
  by (induction acts arbitrary: s) (simp_all add: step_polling_dead)

lemma reconnected_state:
  "reconnected oid db1 db2 =
     \<lparr>events = [Connected (Some \<lparr>name = oid, location = ''Earth'', image_p = JNull\<rparr>),
                Disconnected,
                Connected (Some \<lparr>name = oid, location = ''Earth'', image_p = JNull\<rparr>)],
      orbitdb = Some db2,
      userProfile = Some \<lparr>name = oid, location = ''Earth'', image_p = JNull\<rparr>,
      channels = Map.empty, peers = [], pollPeersTimer = Some 1,
      options_id = oid, joiningQueue = Map.empty, connecting = True,
      promises = [], logPending = Map.empty, logCalls = [], creating = False, timers = [],
      timerCount = 1, appended = []\<rparr>"
  by (simp add: reconnected_def ops Let_def)

subsection \<open>The post of \<^verbatim>\<open>addFile\<close>\<close>

lemma addFile_posts:
  assumes "present (filename so) \<or> present (directory so)"
    and "c \<noteq> []" and "channels s c = Some ch" and "feed ch = Some f"
    and "ipfs (add_arg_of so) = Inr result"
  shows "addFile c (Some so) ipfs ts s =
      (Inr (), s\<lparr>appended := appended s @
         [(f, \<lparr>content = cid result,
               meta = file_meta (userProfile s)
                        (\<not> isBuffer so \<and> trailing (path result) \<noteq> name_of so) ts
                        (size_of so) (name_of so) (source_meta so)\<rparr>)]\<rparr>)"
  using assms
  by (auto simp: addFile_def addToIpfs_def addToIpfsJs_def addToIpfsGo_def add_arg_of_def
        postMessage_def getChannelFeed_def lookup_own)

lemma file_meta_type:
  "file_meta prof isDirectory ts sz nm m ''type'' =
     (case (case m of None \<Rightarrow> None | Some m' \<Rightarrow> m' ''type'') of
        Some v \<Rightarrow> Some v
      | None \<Rightarrow> Some (JStr (if isDirectory then ''directory'' else ''file'')))"
  by (auto simp: file_meta_def map_add_def split: option.splits)

section \<open>Joining a channel\<close>




section \<open>Polling after a reconnect\<close>

text \<open>
  Claim C2. The claim asks that polling for peers is active again after connect,
  disconnect, connect. In the code \<^verbatim>\<open>disconnect\<close> clears the interval and leaves
  \<^verbatim>\<open>_pollPeersTimer\<close> set, so the second \<^verbatim>\<open>connect\<close> creates no interval: the session is
  connected (its last notification is \<^verbatim>\<open>connected\<close>), no interval is active, an interval
  that fires finds nothing to run, and whatever happens afterwards no \<^verbatim>\<open>peers\<close>
  notification is ever emitted. (After the first \<^verbatim>\<open>connect\<close> the interval 1 is active.)
\<close>

theorem reconnect_no_polling:
  "timers (run [Connect JUndefined, CreateSettled (Inr db1)] (new_Orbit oid)) = [1]
   \<and> orbitdb (reconnected oid db1 db2) = Some db2
   \<and> last (events (reconnected oid db1 db2))
        = Connected (Some \<lparr>name = oid, location = ''Earth'', image_p = JNull\<rparr>)
   \<and> timers (reconnected oid db1 db2) = []
   \<and> interval_fired t r (reconnected oid db1 db2) = reconnected oid db1 db2
   \<and> filter is_peers (events (run after (reconnected oid db1 db2))) = []"
proof -
  have "polling_dead (reconnected oid db1 db2)"
    by (simp add: reconnected_state polling_dead_def)
  moreover have "timers (run [Connect JUndefined, CreateSettled (Inr db1)] (new_Orbit oid)) = [1]"
    by (simp add: ops Let_def)
  ultimately show ?thesis
    using run_polling_dead [of "reconnected oid db1 db2" after]
    by (simp add: reconnected_state interval_fired_def)
qed

section \<open>A log that cannot be opened\<close>

text \<open>
  Claim C3. The claim asks that a failure of the provider to open the log rejects the
  pending join and clears it. In the code, on a connected session that joins a
  non-empty name \<open>c\<close> under which the registry read finds nothing and which has no
  pending join, a rejection of \<^verbatim>\<open>this._orbitdb.log\<close> leaves the promise of the join
  pending and the pending join in place; whatever happens afterwards the promise stays
  pending, and every later \<^verbatim>\<open>join(c)\<close> returns it and changes nothing (so it opens no
  log).
\<close>

theorem join_rejected_stays_pending:
  assumes "c \<noteq> []" and "s = run before (new_Orbit oid)" and "orbitdb s = Some db"
    and "lookup (channels s) c = None" and "joiningQueue s c = None"
  shows "let p = length (promises s);
             s2 = log_rejected p e (snd (join c options s))
         in fst (join c options s) = Val p
          \<and> promises s2 ! p = Pending
          \<and> joiningQueue s2 c = Some p
          \<and> (\<forall>after options'.
                promises (run after s2) ! p = Pending
              \<and> join c options' (run after s2) = (Val p, run after s2))"
proof -
  let ?p = "length (promises s)"
  let ?s2 = "s\<lparr>promises := promises s @ [Pending],
                logCalls := logCalls s @ [(c, channelOptions options)],
                logPending := (logPending s)(?p := None),
                joiningQueue := (joiningQueue s)(c \<mapsto> ?p)\<rparr>"
  have j: "join c options s =
     (Val ?p, s\<lparr>promises := promises s @ [Pending],
        logCalls := logCalls s @ [(c, channelOptions options)],
        logPending := (logPending s)(?p \<mapsto> c),
        joiningQueue := (joiningQueue s)(c \<mapsto> ?p)\<rparr>)"
    using assms by (simp add: join_first)
  have r: "log_rejected ?p e (snd (join c options s)) = ?s2"
    by (simp add: j log_rejected_def)
  have "logPending s q \<noteq> Some c" for q
    using assms(2,5) no_log_pending by blast
  then have "stuck c ?p ?s2"
    using assms by (simp add: stuck_def)
  then have after: "stuck c ?p (run after ?s2)" for after
    by (simp add: run_stuck)
  show ?thesis
    unfolding Let_def r
  proof (intro conjI allI)
    fix after options'
    show "promises (run after ?s2) ! ?p = Pending"
      using after [of after] by (simp add: stuck_def)
    show "join c options' (run after ?s2) = (Val ?p, run after ?s2)"
      using after [of after] assms(1) by (simp add: join_stuck)
  qed (simp_all add: j)
qed

theorem join_rejected_stays_pending_witness:
  "orbitdb alice = Some 1 \<and> lookup (channels alice) ''general'' = None
   \<and> joiningQueue alice ''general'' = None
   \<and> promises (log_rejected 0 (ProviderFailure ''no log'') (snd (join ''general'' None alice))) ! 0 = Pending
   \<and> promises (run [Join ''general'' None]
        (log_rejected 0 (ProviderFailure ''no log'') (snd (join ''general'' None alice)))) ! 0 = Pending
   \<and> fst (join ''general'' None
        (log_rejected 0 (ProviderFailure ''no log'') (snd (join ''general'' None alice))))
       = Val 0"
proof -
  have h: "orbitdb alice = Some 1" "lookup (channels alice) ''general'' = None"
    "joiningQueue alice ''general'' = None"
    by (simp_all add: alice_state lookup_None general_not_inherited)
  have p: "length (promises alice) = 0"
    by (simp add: alice_state)
  from join_rejected_stays_pending [OF _ alice_def h,
      where options = None and e = "ProviderFailure ''no log''"]
  have *: "promises (log_rejected 0 (ProviderFailure ''no log'') (snd (join ''general'' None alice))) ! 0 = Pending"
    and **: "\<And>after options'. promises (run after (log_rejected 0 (ProviderFailure ''no log'') (snd (join ''general'' None alice)))) ! 0 = Pending
      \<and> join ''general'' options' (run after (log_rejected 0 (ProviderFailure ''no log'') (snd (join ''general'' None alice))))
         = (Val 0, run after (log_rejected 0 (ProviderFailure ''no log'') (snd (join ''general'' None alice))))"
    by (simp_all add: Let_def p)
  from ** [of "[Join ''general'' None]"] ** [of "[]" None] * h
  show ?thesis by simp
qed

section \<open>A user name that is not a string\<close>

text \<open>
  Claim C6. The claim asks that a rejected user name leaves the session disconnected and
  not connecting. In the code \<^verbatim>\<open>_connecting\<close> is set before the user name is tested: on
  a session that is neither connected nor connecting, \<^verbatim>\<open>connect\<close> with a truthy user name
  that is not a string is rejected and leaves \<^verbatim>\<open>_connecting\<close> set; the next \<^verbatim>\<open>connect\<close>
  is rejected with "Already connecting", and \<^verbatim>\<open>disconnect\<close> does not reset the flag.
\<close>

theorem connect_invalid_username:
  assumes "orbitdb s = None" and "\<not> connecting s"
    and "truthy username" and "typeof username \<noteq> ''string''"
  shows "connect username s =
           (Inl (Error (CHR 0x27 # ''username'' @ CHR 0x27 # '' must be a string'')),
            s\<lparr>connecting := True\<rparr>)
       \<and> connect username' (snd (connect username s)) =
           (Inl (Error ''Already connecting''), snd (connect username s))
       \<and> disconnect r (snd (connect username s)) = (Inr (), snd (connect username s))"
  using assms by (simp add: connect_def disconnect_def)

theorem connect_invalid_username_witness:
  "orbitdb (new_Orbit JUndefined) = None \<and> \<not> connecting (new_Orbit JUndefined)
   \<and> truthy (JNum 42) \<and> typeof (JNum 42) \<noteq> ''string''
   \<and> connecting (snd (connect (JNum 42) (new_Orbit JUndefined)))
   \<and> fst (connect JUndefined (snd (connect (JNum 42) (new_Orbit JUndefined))))
       = Inl (Error ''Already connecting'')"
proof -
  have h: "orbitdb (new_Orbit JUndefined) = None" "\<not> connecting (new_Orbit JUndefined)"
    "truthy (JNum 42)" "typeof (JNum 42) \<noteq> ''string''"
    by (simp_all add: new_Orbit_def)
  from connect_invalid_username [OF h, of JUndefined "Inr ()"] h
  show ?thesis by (simp add: connect_def new_Orbit_def)
qed

section \<open>Posting to a channel that was not joined\<close>

text \<open>
  Claim C7. The claim asks for the error "Have not joined" when a post goes to a
  non-empty name with no live channel. In the code \<^verbatim>\<open>_getChannelFeed\<close> reads the
  \<^verbatim>\<open>feed\<close> of what the registry read gives first, so when that read finds nothing
  \<^verbatim>\<open>send\<close> and \<^verbatim>\<open>addFile\<close> are rejected with a \<open>TypeError\<close>; nothing is appended and
  the session is unchanged.
\<close>

theorem post_without_channel:
  assumes "c \<noteq> []" and "lookup (channels s) c = None"
  shows "getChannelFeed c s = Inl TypeError
       \<and> (message \<noteq> [] \<and> userProfile s = Some u \<longrightarrow>
            send c message ts s = (Inl TypeError, s))
       \<and> ((present (filename so) \<or> present (directory so))
            \<and> ipfs (add_arg_of so) = Inr result \<longrightarrow>
            addFile c (Some so) ipfs ts s = (Inl TypeError, s))"
  using assms
  by (auto simp: send_def addFile_def addToIpfs_def addToIpfsJs_def addToIpfsGo_def
        add_arg_of_def postMessage_def getChannelFeed_def)

theorem post_without_channel_witness:
  "lookup (channels alice) ''general'' = None
   \<and> userProfile alice = Some \<lparr>name = JStr ''alice'', location = ''Earth'', image_p = JNull\<rparr>
   \<and> present (filename file_path)
   \<and> ipfs_stub (add_arg_of file_path) = Inr \<lparr>path = ''a.txt'', cid = ''QmPath''\<rparr>
   \<and> send ''general'' ''hello'' 0 alice = (Inl TypeError, alice)
   \<and> addFile ''general'' (Some file_path) ipfs_stub 0 alice = (Inl TypeError, alice)
   \<and> appended alice = []"
proof -
  have h: "''general'' \<noteq> []" "lookup (channels alice) ''general'' = None"
    by (simp_all add: alice_state lookup_None general_not_inherited)
  have u: "userProfile alice = Some \<lparr>name = JStr ''alice'', location = ''Earth'', image_p = JNull\<rparr>"
    by (simp add: alice_state)
  have f: "present (filename file_path)"
    by (simp add: file_path_def present_def)
  have i: "ipfs_stub (add_arg_of file_path) = Inr \<lparr>path = ''a.txt'', cid = ''QmPath''\<rparr>"
    by (simp add: file_path_def add_arg_of_def isBuffer_def present_def str_def ipfs_stub_def
          trailing_def pop_def)
  have a: "appended alice = []"
    by (simp add: alice_state)
  from post_without_channel [OF h, of "''hello''" _ 0 file_path ipfs_stub] h u f i a
  show ?thesis by simp
qed

section \<open>Leaving a channel\<close>

text \<open>
  Claim C4, as amended. \<^verbatim>\<open>leave(channelName)\<close> for a name under which the registry
  read finds nothing (no live channel, and not a name every object inherits, such as
  \<^verbatim>\<open>constructor\<close>) completes successfully and leaves the channel registry and every
  other part of the state as it was, but it still emits a \<^verbatim>\<open>left\<close> notification for the
  name: the notification is emitted after the test for a live channel, not inside it.
  A \<^verbatim>\<open>left\<close> notification is emitted by every \<^verbatim>\<open>leave\<close> that completes, whether or not
  a channel was removed, and a \<^verbatim>\<open>leave\<close> that fails changes nothing.
\<close>

theorem leave_absent:
  "(lookup (channels s) c = None \<longrightarrow>
      leave c r s = (Inr (), s\<lparr>events := events s @ [Left c]\<rparr>))
   \<and> (fst (leave c r s) = Inr () \<longrightarrow>
        events (snd (leave c r s)) = events s @ [Left c])
   \<and> (fst (leave c r s) \<noteq> Inr () \<longrightarrow> snd (leave c r s) = s)"
  by (auto simp: leave_def emit_def split: option.splits js.splits sum.splits)

text \<open>\<open>alice\<close> leaves \<open>general\<close> without having joined it; on the session that has
  joined it she leaves it, the close succeeding, and once more with the close failing.\<close>

theorem leave_absent_witness:
  "lookup (channels alice) ''general'' = None
   \<and> leave ''general'' (Inr ()) alice
       = (Inr (), alice\<lparr>events := events alice @ [Left ''general'']\<rparr>)
   \<and> fst (leave ''general'' (Inr ()) alice_general) = Inr ()
   \<and> events (snd (leave ''general'' (Inr ()) alice_general))
       = events alice_general @ [Left ''general'']
   \<and> fst (leave ''general'' (Inl (ProviderFailure ''close'')) alice_general) \<noteq> Inr ()
   \<and> snd (leave ''general'' (Inl (ProviderFailure ''close'')) alice_general) = alice_general"
proof -
  have h: "lookup (channels alice) ''general'' = None"
    by (simp add: alice_state lookup_None general_not_inherited)
  have ok: "fst (leave ''general'' (Inr ()) alice_general) = Inr ()"
    by (simp add: alice_general_state alice_state leave_def lookup_def)
  have ko: "fst (leave ''general'' (Inl (ProviderFailure ''close'')) alice_general) \<noteq> Inr ()"
    by (simp add: alice_general_state alice_state leave_def lookup_def)
  from leave_absent [of alice "''general''" "Inr ()"]
    leave_absent [of alice_general "''general''" "Inr ()"]
    leave_absent [of alice_general "''general''" "Inl (ProviderFailure ''close'')"]
    h ok ko
  show ?thesis
    by simp
qed

text \<open>The claim as stated fails: \<open>alice\<close> has not joined \<open>general\<close>, no \<^verbatim>\<open>left\<close> was
  emitted before, and one is emitted by \<^verbatim>\<open>leave\<close>.\<close>

theorem leave_absent_counterexample:
  "channels alice ''general'' = None
   \<and> Left ''general'' \<notin> set (events alice)
   \<and> Left ''general'' \<in> set (events (snd (leave ''general'' (Inr ()) alice)))"
  by (simp add: alice_state leave_def emit_def lookup_def general_not_inherited)

text \<open>
  Claim C5, as amended. When closing the feed of a live channel fails, \<^verbatim>\<open>leave\<close> is
  rejected with the error of the close, the channel stays in the registry and nothing is
  emitted (the state is unchanged); when closing succeeds, \<^verbatim>\<open>leave\<close> completes, the
  channel is removed from the registry and \<^verbatim>\<open>left\<close> is emitted.
\<close>

theorem leave_close_outcome:
  assumes "channels s c = Some ch" and "feed ch = Some f"
  shows "leave c (Inl e) s = (Inl e, s)
       \<and> leave c (Inr ()) s =
           (Inr (), s\<lparr>channels := (channels s)(c := None), events := events s @ [Left c]\<rparr>)"
  using assms by (simp add: leave_def emit_def lookup_own)

theorem leave_close_outcome_witness:
  "channels alice_general ''general'' = Some \<lparr>channelName = ''general'', feed = Some 7\<rparr>
   \<and> leave ''general'' (Inl (ProviderFailure ''close'')) alice_general
       = (Inl (ProviderFailure ''close''), alice_general)
   \<and> channels (snd (leave ''general'' (Inr ()) alice_general)) ''general'' = None"
proof -
  have h: "channels alice_general ''general'' = Some \<lparr>channelName = ''general'', feed = Some 7\<rparr>"
    "feed \<lparr>channelName = ''general'', feed = Some 7\<rparr> = Some 7"
    by (simp_all add: alice_general_state)
  from leave_close_outcome [OF h, of "ProviderFailure ''close''"] h show ?thesis
    by simp
qed

text \<open>The claim as stated fails: the close of the feed of \<open>general\<close> fails, \<^verbatim>\<open>leave\<close> is
  rejected with that error and the channel is still registered.\<close>

theorem leave_close_outcome_counterexample:
  "channels alice_general ''general'' = Some \<lparr>channelName = ''general'', feed = Some 7\<rparr>
   \<and> fst (leave ''general'' (Inl (ProviderFailure ''close'')) alice_general)
       = Inl (ProviderFailure ''close'')
   \<and> channels (snd (leave ''general'' (Inl (ProviderFailure ''close'')) alice_general)) ''general''
       = Some \<lparr>channelName = ''general'', feed = Some 7\<rparr>"
  by (simp add: alice_general_state alice_state leave_def lookup_def)

section \<open>The type of a file post\<close>

text \<open>
  Claim C8, as amended. When \<^verbatim>\<open>addFile\<close> has a file name or a directory, the channel is
  live and the provider's \<^verbatim>\<open>add\<close> succeeds, exactly one post is appended to the
  channel's feed; its content is the content identifier, and its \<^verbatim>\<open>meta.type\<close> is the
  \<^verbatim>\<open>type\<close> entry of the caller's meta when the caller's meta has one (it is merged
  last), and otherwise: "file" for a buffer source (buffer and file name present), and
  for a path source "file" iff the trailing segment of the path the provider returned
  equals the expected name (the trailing segment of the directory, else of the file
  name), "directory" otherwise.
\<close>

theorem addFile_meta_type:
  assumes "present (filename so) \<or> present (directory so)"
    and "c \<noteq> []" and "channels s c = Some ch" and "feed ch = Some f"
    and "ipfs (add_arg_of so) = Inr result"
  shows "let s' = snd (addFile c (Some so) ipfs ts s); p = snd (last (appended s'))
         in fst (addFile c (Some so) ipfs ts s) = Inr ()
          \<and> s' = s\<lparr>appended := appended s @ [(f, p)]\<rparr>
          \<and> content p = cid result
          \<and> meta p ''type'' =
               (case caller_type so of
                  Some v \<Rightarrow> Some v
                | None \<Rightarrow>
                    Some (JStr (if isBuffer so then ''file''
                                else if trailing (path result) = name_of so then ''file''
                                else ''directory'')))"
proof -
  note posts = addFile_posts [where so = so and c = c and s = s and ch = ch and f = f
      and ipfs = ipfs and result = result and ts = ts, OF assms]
  show ?thesis
    unfolding posts Let_def
    by (simp add: file_meta_type caller_type_def split: option.splits)
qed

theorem addFile_meta_type_witness:
  "present (filename file_path) \<and> caller_type file_path = None \<and> \<not> isBuffer file_path
   \<and> channels alice_general ''general'' = Some \<lparr>channelName = ''general'', feed = Some 7\<rparr>
   \<and> ipfs_stub (add_arg_of file_path) = Inr \<lparr>path = ''a.txt'', cid = ''QmPath''\<rparr>
   \<and> name_of file_path = ''a.txt''
   \<and> fst (addFile ''general'' (Some file_path) ipfs_stub 0 alice_general) = Inr ()
   \<and> meta (snd (last (appended
        (snd (addFile ''general'' (Some file_path) ipfs_stub 0 alice_general))))) ''type''
       = Some (JStr ''file'')"
proof -
  have f: "present (filename file_path) \<or> present (directory file_path)"
    and f': "present (filename file_path)" "caller_type file_path = None" "\<not> isBuffer file_path"
    by (simp_all add: file_path_def present_def caller_type_def isBuffer_def)
  have h: "''general'' \<noteq> []"
    "channels alice_general ''general'' = Some \<lparr>channelName = ''general'', feed = Some 7\<rparr>"
    "feed \<lparr>channelName = ''general'', feed = Some 7\<rparr> = Some 7"
    by (simp_all add: alice_general_state alice_state)
  have i: "ipfs_stub (add_arg_of file_path) = Inr \<lparr>path = ''a.txt'', cid = ''QmPath''\<rparr>"
    by (simp add: file_path_def add_arg_of_def isBuffer_def present_def str_def ipfs_stub_def
          trailing_def pop_def)
  have n: "name_of file_path = ''a.txt''"
    by (simp add: file_path_def name_of_def present_def str_def trailing_def pop_def)
  have t: "trailing ''a.txt'' = ''a.txt''"
    by (simp add: trailing_def pop_def)
  note inst = addFile_meta_type [where so = file_path and c = "''general''"
      and s = alice_general and ipfs = ipfs_stub and ts = 0, OF f h i]
  have "fst (addFile ''general'' (Some file_path) ipfs_stub 0 alice_general) = Inr ()"
    and "meta (snd (last (appended
        (snd (addFile ''general'' (Some file_path) ipfs_stub 0 alice_general))))) ''type''
       = Some (JStr ''file'')"
    using inst by (simp_all add: Let_def f' n t)
  with f' h i n show ?thesis
    by simp
qed

text \<open>The claim as stated fails: a buffer source whose meta says \<^verbatim>\<open>type: 'directory'\<close>
  gives a post whose \<^verbatim>\<open>meta.type\<close> is "directory".\<close>

theorem addFile_meta_type_counterexample:
  "isBuffer typed_buffer
   \<and> fst (addFile ''general'' (Some typed_buffer) ipfs_stub 0 alice_general) = Inr ()
   \<and> meta (snd (last (appended
        (snd (addFile ''general'' (Some typed_buffer) ipfs_stub 0 alice_general))))) ''type''
       = Some (JStr ''directory'')"
  by (simp add: typed_buffer_def isBuffer_def present_def addFile_def addToIpfs_def
        addToIpfsJs_def ipfs_stub_def postMessage_def getChannelFeed_def lookup_def
        alice_general_state alice_state file_meta_def)

section \<open>Truncation of text messages\<close>

text \<open>
  Claim C9. For a non-empty channel name with a live channel, a non-empty text and a
  session with a user profile, \<^verbatim>\<open>send\<close> appends exactly one post to the channel's feed,
  whose content is the first 2048 characters of the text: exactly 2048 characters when
  the text is longer than that, and the text unchanged when its length is at most 2048.
\<close>

theorem send_truncates:
  assumes "c \<noteq> []" and "message \<noteq> []" and "userProfile s = Some u"
    and "channels s c = Some ch" and "feed ch = Some f"
  shows "send c message ts s =
           (Inr (), s\<lparr>appended := appended s @
              [(f, \<lparr>content = take 2048 message,
                    meta = [''from'' \<mapsto> profile_val u, ''type'' \<mapsto> JStr ''text'',
                            ''ts'' \<mapsto> JNum ts]\<rparr>)]\<rparr>)
         \<and> (2048 < length message \<longrightarrow> length (take 2048 message) = 2048)
         \<and> (length message \<le> 2048 \<longrightarrow> take 2048 message = message)"
  using assms by (simp add: send_def postMessage_def getChannelFeed_def lookup_own)

theorem send_truncates_witness:
  "userProfile alice_general = Some \<lparr>name = JStr ''alice'', location = ''Earth'', image_p = JNull\<rparr>
   \<and> channels alice_general ''general'' = Some \<lparr>channelName = ''general'', feed = Some 7\<rparr>
   \<and> 2048 < length (replicate 3000 CHR ''a'')
   \<and> fst (send ''general'' (replicate 3000 CHR ''a'') 0 alice_general) = Inr ()
   \<and> content (snd (last (appended
        (snd (send ''general'' (replicate 3000 CHR ''a'') 0 alice_general)))))
       = replicate 2048 CHR ''a''
   \<and> content (snd (last (appended (snd (send ''general'' ''hello'' 0 alice_general)))))
       = ''hello''"
proof -
  have h: "userProfile alice_general = Some \<lparr>name = JStr ''alice'', location = ''Earth'', image_p = JNull\<rparr>"
    "channels alice_general ''general'' = Some \<lparr>channelName = ''general'', feed = Some 7\<rparr>"
    "feed \<lparr>channelName = ''general'', feed = Some 7\<rparr> = Some 7"
    by (simp_all add: alice_general_state alice_state)
  have n: "replicate 3000 CHR ''a'' \<noteq> []" "''hello'' \<noteq> []" "''general'' \<noteq> []"
    by simp_all
  from send_truncates [OF n(3) n(1) h, of 0] send_truncates [OF n(3) n(2) h, of 0] h
  show ?thesis by simp
qed

section \<open>Joining while disconnected\<close>

text \<open>
  Claim C10, as amended. In a state the object can reach, disconnected, for a non-empty
  name \<open>c\<close> under which the registry read finds nothing (no live channel, and not a name
  every object inherits, such as \<^verbatim>\<open>constructor\<close>) and which has no entry in the
  pending-join table: \<^verbatim>\<open>join(c)\<close> returns a promise that is rejected (the executor
  throws a \<open>TypeError\<close> on the null \<^verbatim>\<open>_orbitdb\<close>), keeps it as the pending join of \<open>c\<close>
  and opens no log. Whatever happens afterwards (a successful \<^verbatim>\<open>connect\<close>, a
  \<^verbatim>\<open>disconnect\<close>, any other call or settlement), the entry stays, the promise stays
  rejected, and every \<^verbatim>\<open>join(c)\<close> returns that same promise and changes nothing, so it
  opens no log.
\<close>

theorem join_disconnected_poisons:
  assumes "c \<noteq> []" and "s = run before (new_Orbit oid)" and "orbitdb s = None"
    and "lookup (channels s) c = None" and "joiningQueue s c = None"
  shows "let p = length (promises s); s1 = snd (join c options s)
         in fst (join c options s) = Val p
          \<and> promises s1 ! p = Rejected TypeError
          \<and> joiningQueue s1 c = Some p
          \<and> logCalls s1 = logCalls s
          \<and> (\<forall>after options'.
                join c options' (run after s1) = (Val p, run after s1)
              \<and> promises (run after s1) ! p = Rejected TypeError
              \<and> joiningQueue (run after s1) c = Some p)"
proof -
  let ?p = "length (promises s)"
  let ?s1 = "s\<lparr>promises := promises s @ [Rejected TypeError],
                joiningQueue := (joiningQueue s)(c \<mapsto> ?p)\<rparr>"
  have j: "join c options s = (Val ?p, ?s1)"
    using assms by (simp add: join_disconnected)
  have "logPending s q \<noteq> Some c" for q
    using assms(2,5) no_log_pending by blast
  with assms have "poisoned c ?p ?s1"
    by (simp add: poisoned_def lookup_None)
  then have after: "poisoned c ?p (run after ?s1)" for after
    by (simp add: run_poisoned)
  show ?thesis
    unfolding Let_def j fst_conv snd_conv
  proof (intro conjI allI)
    fix after options'
    show "join c options' (run after ?s1) = (Val ?p, run after ?s1)"
      using after [of after] assms(1) by (simp add: join_poisoned)
    show "promises (run after ?s1) ! ?p = Rejected TypeError"
      using after [of after] by (simp add: poisoned_def)
    show "joiningQueue (run after ?s1) c = Some ?p"
      using after [of after] by (simp add: poisoned_def)
  qed simp_all
qed

text \<open>On a new object: \<^verbatim>\<open>join('general')\<close> is rejected, and after a successful
  \<^verbatim>\<open>connect\<close> it still returns the same rejected promise.\<close>

theorem join_disconnected_poisons_witness:
  "orbitdb (new_Orbit JUndefined) = None
   \<and> lookup (channels (new_Orbit JUndefined)) ''general'' = None
   \<and> joiningQueue (new_Orbit JUndefined) ''general'' = None
   \<and> fst (join ''general'' None (new_Orbit JUndefined)) = Val 0
   \<and> promises (snd (join ''general'' None (new_Orbit JUndefined))) ! 0 = Rejected TypeError
   \<and> orbitdb (run [Connect JUndefined, CreateSettled (Inr 1)]
        (snd (join ''general'' None (new_Orbit JUndefined)))) = Some 1
   \<and> join ''general'' None
        (run [Connect JUndefined, CreateSettled (Inr 1)]
           (snd (join ''general'' None (new_Orbit JUndefined))))
       = (Val 0, run [Connect JUndefined, CreateSettled (Inr 1)]
               (snd (join ''general'' None (new_Orbit JUndefined))))
   \<and> promises (run [Connect JUndefined, CreateSettled (Inr 1)]
        (snd (join ''general'' None (new_Orbit JUndefined)))) ! 0 = Rejected TypeError"
proof -
  have h: "orbitdb (new_Orbit JUndefined) = None"
    "lookup (channels (new_Orbit JUndefined)) ''general'' = None"
    "joiningQueue (new_Orbit JUndefined) ''general'' = None"
    by (simp_all add: new_Orbit_def lookup_None general_not_inherited)
  have r: "new_Orbit JUndefined = run [] (new_Orbit JUndefined)"
    by simp
  have p: "length (promises (new_Orbit JUndefined)) = 0"
    by (simp add: new_Orbit_def)
  have c: "orbitdb (run [Connect JUndefined, CreateSettled (Inr 1)]
        (snd (join ''general'' None (new_Orbit JUndefined)))) = Some 1"
    by (simp add: ops Let_def lookup_def general_not_inherited)
  from join_disconnected_poisons [OF _ r h, where options = None]
  have *: "fst (join ''general'' None (new_Orbit JUndefined)) = Val 0"
    "promises (snd (join ''general'' None (new_Orbit JUndefined))) ! 0 = Rejected TypeError"
    and **: "\<And>after options'.
        join ''general'' options' (run after (snd (join ''general'' None (new_Orbit JUndefined))))
          = (Val 0, run after (snd (join ''general'' None (new_Orbit JUndefined))))
      \<and> promises (run after (snd (join ''general'' None (new_Orbit JUndefined)))) ! 0
          = Rejected TypeError"
    by (simp_all add: Let_def p)
  from ** [of None "[Connect JUndefined, CreateSettled (Inr 1)]"] * h c
  show ?thesis by simp
qed

text \<open>
  The claim as stated fails, on two inputs. On a new, disconnected object
  \<^verbatim>\<open>join('constructor')\<close> returns a promise fulfilled with the inherited property and
  leaves no entry in the pending-join table. On the session that disconnected while its
  join of \<open>general\<close> was waiting, \<^verbatim>\<open>join('general')\<close> returns the promise of that join,
  which is pending, and the provider's late answer fulfils it with the channel.
\<close>

theorem join_disconnected_poisons_counterexample:
  "orbitdb (new_Orbit JUndefined) = None
   \<and> fst (join ''constructor'' None (new_Orbit JUndefined)) = Val 0
   \<and> promises (snd (join ''constructor'' None (new_Orbit JUndefined)))
       = [Fulfilled (Proto ''constructor'')]
   \<and> joiningQueue (snd (join ''constructor'' None (new_Orbit JUndefined))) ''constructor''
       = None
   \<and> orbitdb left_waiting = None
   \<and> join ''general'' None left_waiting = (Val 0, left_waiting)
   \<and> promises left_waiting = [Pending]
   \<and> promises (log_fulfilled 0 7 left_waiting)
       = [Fulfilled (Val \<lparr>channelName = ''general'', feed = Some 7\<rparr>)]"
  by (simp add: new_Orbit_def left_waiting_state alice_state join_def new_promise_def
        log_fulfilled_def resolve_def emit_def lookup_def general_not_inherited
        constructor_inherited Let_def)

end
